theory Spec2Isabelle
  imports Main
begin

section \<open>FrameLift AI backend: the OAuth callback and the upload handler of server.js\<close>

text \<open>
  The development embeds the two route handlers of \<^verbatim>\<open>server.js\<close>:
  \<^verbatim>\<open>app.get('/on_auth', ...)\<close> (lines 39-67) and
  \<^verbatim>\<open>app.post('/upload', upload.single('video'), ...)\<close> (lines 76-110).
  A handler is a function from its request and the behaviour of the runtime it calls
  (axios, console, the file system) to the response it sends and the effects it has:
  the outbound HTTP exchanges, the console lines, the files on disk.
  The model starts where Express calls the handler: \<^verbatim>\<open>req.query\<close>,
  \<^verbatim>\<open>req.body\<close> and \<^verbatim>\<open>req.file\<close> are already populated by the query
  parser and by multer.
\<close>

subsection \<open>JavaScript values of a request\<close>

text \<open>
  A value that the query parser or multer stores under a key: a string, an array or a
  nested object. A key that is not there reads as \<^verbatim>\<open>undefined\<close>, modelled by
  \<open>None\<close>. Strings are byte lists (UTF-8).
\<close>

datatype qval = QStr string | QArr "qval list" | QObj "(string \<times> qval) list"

text \<open>
  JavaScript truthiness, as tested by \<^verbatim>\<open>!code\<close> and \<^verbatim>\<open>!accessToken\<close>:
  \<^verbatim>\<open>undefined\<close> and the empty string are falsy, every array and object is truthy.
\<close>

fun truthy :: "qval option \<Rightarrow> bool" where
  "truthy None = False"
| "truthy (Some (QStr s)) = (s \<noteq> [])"
| "truthy (Some (QArr xs)) = True"
| "truthy (Some (QObj kvs)) = True"

text \<open>
  An error object: its \<^verbatim>\<open>message\<close> and, for an axios error that carries an HTTP
  response, the \<^verbatim>\<open>data\<close> of that response (\<^verbatim>\<open>err.response.data\<close>).
  The type \<open>'p\<close> is the payload of the token endpoint, which the program never inspects.
\<close>

datatype 'p js_error = Error (message: string) (response_data: "'p option")

subsection \<open>Responses and effects\<close>

datatype json = JBool bool | JString string | JObject "(string \<times> json) list"

text \<open>
  What the handler does with \<^verbatim>\<open>res\<close>: \<^verbatim>\<open>res.status(n).send(text)\<close>,
  \<^verbatim>\<open>res.status(n).json(obj)\<close> (status 200 when \<^verbatim>\<open>res.json\<close> is called alone),
  and \<^verbatim>\<open>res.redirect(url)\<close>, which Express answers with status 302; the string kept
  for a redirect is the argument of \<^verbatim>\<open>res.redirect\<close>.
\<close>

datatype http_response =
    Send (status: nat) string
  | Json (status: nat) json
  | Redirect (status: nat) string

text \<open>The arguments of one \<^verbatim>\<open>axios.post(url, data, {params})\<close> call.\<close>

record post_request =
  verb :: string
  url :: string
  data :: "string option"
  params :: "(string \<times> qval option) list"

datatype 'p log_arg = LStr string | LData 'p | LErr "'p js_error"

text \<open>
  The runtime around the handlers. \<open>axios_post\<close> is the token endpoint as axios
  presents it: \<open>Inr d\<close> when the promise resolves with \<^verbatim>\<open>tokenResp.data = d\<close>,
  \<open>Inl err\<close> when it rejects (network error or non-success status).
  \<open>console_log\<close> tells whether a \<^verbatim>\<open>console.log\<close> call inside a
  \<^verbatim>\<open>try\<close> block throws, and with what. \<open>JSON_stringify\<close> serialises the
  opaque payload; it returns a well-formed string, on which
  \<^verbatim>\<open>encodeURIComponent\<close> does not throw. \<^verbatim>\<open>console.error\<close>, called in the
  \<^verbatim>\<open>catch\<close> blocks, adds its line and returns.
\<close>

record 'p env =
  axios_post :: "post_request \<Rightarrow> 'p js_error + 'p"
  console_log :: "string \<Rightarrow> 'p js_error option"
  JSON_stringify :: "'p \<Rightarrow> string"

text \<open>
  The observable result of running a handler: the response, the outbound exchanges in
  the order they were made (each with its result), and the console lines.
\<close>

record 'p outcome =
  response :: http_response
  calls :: "(post_request \<times> ('p js_error + 'p)) list"
  logged :: "'p log_arg list list"

subsection \<open>Configuration\<close>

text \<open>
  The environment variables of lines 20-22 and 60; \<open>None\<close> is an unset variable.
\<close>

record config =
  CLIENT_KEY :: "string option"
  CLIENT_SECRET :: "string option"
  REDIRECT_URI :: "string option"
  FRONTEND_URL :: "string option"

text \<open>\<^verbatim>\<open>process.env.FRONTEND_URL || '/'\<close>: an unset or empty variable gives \<^verbatim>\<open>'/'\<close>.\<close>

definition frontend :: "config \<Rightarrow> string" where
  "frontend cfg =
     (case FRONTEND_URL cfg of
        None \<Rightarrow> ''/''
      | Some u \<Rightarrow> if u = [] then ''/'' else u)"

subsection \<open>encodeURIComponent\<close>

text \<open>
  \<^verbatim>\<open>encodeURIComponent\<close> on a well-formed string: the letters, the digits and
  \<^verbatim>\<open>- _ . ! ~ * ' ( )\<close> stay, every other UTF-8 byte becomes \<^verbatim>\<open>%XX\<close> in
  upper-case hexadecimal.
\<close>

definition hex_digit :: "nat \<Rightarrow> char" where
  "hex_digit n = (if n < 16 then ''0123456789ABCDEF'' ! n else CHR ''?'')"

definition uri_unescaped :: "char \<Rightarrow> bool" where
  "uri_unescaped c =
     (c \<in> set ''ABCDEFGHIJKLMNOPQRSTUVWXYZabcdefghijklmnopqrstuvwxyz0123456789-_.!~*()''
      \<or> c = CHR 0x27)"

definition encode_char :: "char \<Rightarrow> string" where
  "encode_char c =
     (if uri_unescaped c then [c]
      else [CHR ''%'', hex_digit (of_char c div 16), hex_digit (of_char c mod 16)])"

definition encodeURIComponent :: "string \<Rightarrow> string" where
  "encodeURIComponent s = concat (map encode_char s)"

subsection \<open>The OAuth callback, lines 39-67\<close>

record auth_request =
  req_query :: "(string \<times> qval) list"

text \<open>The call of lines 47-54: no request body (\<^verbatim>\<open>null\<close>), four \<^verbatim>\<open>params\<close>.\<close>

definition token_request :: "config \<Rightarrow> qval option \<Rightarrow> post_request" where
  "token_request cfg code =
     \<lparr> verb = ''POST'',
       url = ''https://open-api.tiktok.com/oauth/access_token/'',
       data = None,
       params =
         [ (''client_key'', map_option QStr (CLIENT_KEY cfg)),
           (''client_secret'', map_option QStr (CLIENT_SECRET cfg)),
           (''code'', code),
           (''grant_type'', Some (QStr ''authorization_code'')) ] \<rparr>"

definition on_auth_handler :: "'p env \<Rightarrow> config \<Rightarrow> auth_request \<Rightarrow> 'p outcome" where
  "on_auth_handler env cfg req =
     (let code = map_of (req_query req) ''code'';
          state = map_of (req_query req) ''state''
      in
        if \<not> truthy code then
          \<lparr> response = Send 400 ''Missing code'', calls = [], logged = [] \<rparr>
        else
          let rq = token_request cfg code;
              tokenResp = axios_post env rq
          in
            case tokenResp of
              Inr tokenData \<Rightarrow>
                let tokenQuery = encodeURIComponent (JSON_stringify env tokenData)
                in \<lparr> response = Redirect 302 (frontend cfg @ ''?token='' @ tokenQuery),
                     calls = [(rq, tokenResp)],
                     logged = [] \<rparr>
            | Inl err \<Rightarrow>
                \<lparr> response = Send 500 ''Token exchange failed'',
                  calls = [(rq, tokenResp)],
                  logged =
                    [[ LStr ''Error exchanging token'',
                       (case response_data err of
                          Some d \<Rightarrow> LData d
                        | None \<Rightarrow> LStr (message err)) ]] \<rparr>)"

subsection \<open>The upload handler, lines 76-110\<close>

text \<open>
  \<^verbatim>\<open>req.file\<close> as multer's disk storage leaves it (only \<^verbatim>\<open>path\<close> is read), and
  \<^verbatim>\<open>req.body\<close>, which may be \<^verbatim>\<open>undefined\<close>.
\<close>

record upload_file =
  path :: string

record upload_request =
  req_file :: "upload_file option"
  req_body :: "(string \<times> qval) list option"

text \<open>Lines 79-80: \<^verbatim>\<open>(req.body || {}).access_token\<close>.\<close>

definition access_token :: "upload_request \<Rightarrow> qval option" where
  "access_token req =
     (let body = (case req_body req of None \<Rightarrow> [] | Some b \<Rightarrow> b)
      in map_of body ''access_token'')"

text \<open>
  \<^verbatim>\<open>fs.unlinkSync\<close> on the set of existing paths: it removes the path, and throws
  when there is no such file.
\<close>

definition unlinkSync :: "string \<Rightarrow> string set \<Rightarrow> 'p js_error + string set" where
  "unlinkSync p disk =
     (if p \<in> disk then Inr (disk - {p})
      else Inl (Error (''ENOENT: no such file or directory, unlink '' @ [CHR 0x27] @ p @ [CHR 0x27])
                      None))"

text \<open>The text of line 88; its dash is U+2014, three bytes in UTF-8.\<close>

definition demo_line :: string where
  "demo_line =
     ''No access_token provided '' @ [CHR 0xE2, CHR 0x80, CHR 0x94] @ '' running in demo mode''"

definition no_file_body :: json where
  "no_file_body = JObject [(''ok'', JBool False), (''message'', JString ''No file uploaded'')]"

definition demo_body :: json where
  "demo_body =
     JObject [(''ok'', JBool True), (''demo'', JBool True),
              (''message'', JString ''Demo upload accepted (no TikTok call)'')]"

definition received_body :: json where
  "received_body =
     JObject [(''ok'', JBool True),
              (''message'',
               JString ''File received. In production this would be uploaded to TikTok (demo mode).'')]"

text \<open>
  The \<^verbatim>\<open>try\<close> block, lines 78-105. It returns the response it sends or the
  exception that leaves it, with the console lines written and the disk as it is then.
\<close>

definition upload_try ::
  "'p env \<Rightarrow> upload_request \<Rightarrow> string set
     \<Rightarrow> ('p js_error + http_response) \<times> 'p log_arg list list \<times> string set" where
  "upload_try env req disk =
     (let accessToken = access_token req
      in
        case req_file req of
          None \<Rightarrow> (Inr (Json 400 no_file_body), [], disk)
        | Some f \<Rightarrow>
            if \<not> truthy accessToken then
              (case console_log env demo_line of
                 Some err \<Rightarrow> (Inl err, [], disk)
               | None \<Rightarrow>
                   (case unlinkSync (path f) disk of
                      Inl err \<Rightarrow> (Inl err, [[LStr demo_line]], disk)
                    | Inr disk' \<Rightarrow> (Inr (Json 200 demo_body), [[LStr demo_line]], disk')))
            else
              (case unlinkSync (path f) disk of
                 Inl err \<Rightarrow> (Inl err, [], disk)
               | Inr disk' \<Rightarrow> (Inr (Json 200 received_body), [], disk')))"

text \<open>
  The handler: the \<^verbatim>\<open>try\<close> block and the \<^verbatim>\<open>catch\<close> of lines 106-109. It makes
  no \<^verbatim>\<open>axios\<close> call on any path.
\<close>

definition upload_handler ::
  "'p env \<Rightarrow> upload_request \<Rightarrow> string set \<Rightarrow> 'p outcome \<times> string set" where
  "upload_handler env req disk =
     (case upload_try env req disk of
        (Inr resp, out, disk') \<Rightarrow>
          (\<lparr> response = resp, calls = [], logged = out \<rparr>, disk')
      | (Inl err, out, disk') \<Rightarrow>
          (\<lparr> response = Json 500 (JObject [(''ok'', JBool False), (''error'', JString (message err))]),
             calls = [],
             logged = out @ [[LErr err]] \<rparr>,
           disk'))"

subsection \<open>Sample runtimes and requests\<close>

text \<open>
  Concrete runtimes for the examples below; the payload is a string here.
  In \<open>sample_env\<close> the token endpoint answers every call with \<^verbatim>\<open>tok123\<close> and
  \<^verbatim>\<open>JSON.stringify\<close> puts a string of letters and digits between double quotes.
  In \<open>failing_env\<close> the endpoint rejects every call with a status-400 response.
  In \<open>broken_console_env\<close> the call of \<^verbatim>\<open>console.log\<close> throws.
\<close>

definition sample_cfg :: config where
  "sample_cfg =
     \<lparr> CLIENT_KEY = Some ''key1'', CLIENT_SECRET = Some ''secret1'',
       REDIRECT_URI = Some ''https://example.org/on_auth'', FRONTEND_URL = None \<rparr>"

definition sample_env :: "string env" where
  "sample_env =
     \<lparr> axios_post = (\<lambda>rq. Inr ''tok123''),
       console_log = (\<lambda>line. None),
       JSON_stringify = (\<lambda>d. [CHR 0x22] @ d @ [CHR 0x22]) \<rparr>"

definition failing_env :: "string env" where
  "failing_env =
     sample_env \<lparr> axios_post :=
       (\<lambda>rq. Inl (Error ''Request failed with status code 400'' (Some ''invalid code''))) \<rparr>"

definition broken_console_env :: "string env" where
  "broken_console_env =
     sample_env \<lparr> console_log := (\<lambda>line. Some (Error ''write EPIPE'' None)) \<rparr>"

section \<open>Properties of the OAuth callback\<close>

text \<open>
  C5. A request to /on_auth whose query has no \<^verbatim>\<open>code\<close> parameter is answered with
  status 400 and the plain text \<^verbatim>\<open>Missing code\<close>, and no call to the token endpoint
  is made.
\<close>

theorem on_auth_missing_code:
  assumes "map_of (req_query req) ''code'' = None"
  shows "response (on_auth_handler env cfg req) = Send 400 ''Missing code''
         \<and> status (response (on_auth_handler env cfg req)) = 400
         \<and> calls (on_auth_handler env cfg req) = []"
  using assms by (simp add: on_auth_handler_def)

theorem on_auth_missing_code_witness:
  "map_of (req_query \<lparr> req_query = [(''state'', QStr ''xyz'')] \<rparr>) ''code'' = None
   \<and> response (on_auth_handler sample_env sample_cfg \<lparr> req_query = [(''state'', QStr ''xyz'')] \<rparr>)
       = Send 400 ''Missing code''
   \<and> calls (on_auth_handler sample_env sample_cfg \<lparr> req_query = [(''state'', QStr ''xyz'')] \<rparr>) = []"
  using on_auth_missing_code
          [where req = "\<lparr> req_query = [(''state'', QStr ''xyz'')] \<rparr>"
             and env = sample_env and cfg = sample_cfg]
  by simp

text \<open>
  C1. For a request to /on_auth that carries a \<^verbatim>\<open>code\<close> parameter: when the call to the
  token endpoint succeeds with payload \<open>P\<close>, the response is a 302 redirect to the frontend
  base URL (\<^verbatim>\<open>FRONTEND_URL\<close>, or \<^verbatim>\<open>/\<close> when it is unset or empty) followed by
  \<^verbatim>\<open>?token=\<close> and the URL-encoding of the JSON serialisation of \<open>P\<close>. The payload has
  an arbitrary type: the handler hands it to the serialiser and reads nothing of it.
\<close>

theorem on_auth_success_redirect:
  assumes "map_of (req_query req) ''code'' = Some c"
      and "(rq, Inr P) \<in> set (calls (on_auth_handler env cfg req))"
  shows "response (on_auth_handler env cfg req)
           = Redirect 302 (frontend cfg @ ''?token='' @ encodeURIComponent (JSON_stringify env P))
         \<and> frontend cfg = (case FRONTEND_URL cfg of None \<Rightarrow> ''/'' | Some u \<Rightarrow> if u = [] then ''/'' else u)"
  using assms
  by (auto simp: on_auth_handler_def frontend_def Let_def split: if_splits sum.splits)

theorem on_auth_success_redirect_witness:
  "map_of (req_query \<lparr> req_query = [(''code'', QStr ''abc'')] \<rparr>) ''code'' = Some (QStr ''abc'')
   \<and> (token_request sample_cfg (Some (QStr ''abc'')), Inr ''tok123'')
        \<in> set (calls (on_auth_handler sample_env sample_cfg \<lparr> req_query = [(''code'', QStr ''abc'')] \<rparr>))
   \<and> response (on_auth_handler sample_env sample_cfg \<lparr> req_query = [(''code'', QStr ''abc'')] \<rparr>)
       = Redirect 302 ''/?token=%22tok123%22''"
proof -
  let ?req = "\<lparr> req_query = [(''code'', QStr ''abc'')] \<rparr>"
  have code: "map_of (req_query ?req) ''code'' = Some (QStr ''abc'')"
    by simp
  have call: "(token_request sample_cfg (Some (QStr ''abc'')), Inr ''tok123'')
                \<in> set (calls (on_auth_handler sample_env sample_cfg ?req))"
    by (simp add: on_auth_handler_def sample_env_def)
  have enc: "frontend sample_cfg @ ''?token='' @ encodeURIComponent (JSON_stringify sample_env ''tok123'')
               = ''/?token=%22tok123%22''"
    by (simp add: frontend_def sample_cfg_def sample_env_def encodeURIComponent_def
                  encode_char_def uri_unescaped_def hex_digit_def)
  from on_auth_success_redirect [OF code call] enc code call
  show ?thesis by simp
qed

text \<open>
  C6. For a request to /on_auth that carries a \<^verbatim>\<open>code\<close> parameter: when the call to the
  token endpoint fails with an error \<open>err\<close>, the response is status 500 with the fixed text
  \<^verbatim>\<open>Token exchange failed\<close>, whatever \<open>err\<close> holds, and that failed call is the only
  outbound call of the handler.
\<close>

theorem on_auth_failure_500:
  assumes "map_of (req_query req) ''code'' = Some c"
      and "(rq, Inl err) \<in> set (calls (on_auth_handler env cfg req))"
  shows "response (on_auth_handler env cfg req) = Send 500 ''Token exchange failed''
         \<and> status (response (on_auth_handler env cfg req)) = 500
         \<and> calls (on_auth_handler env cfg req) = [(rq, Inl err)]"
  using assms
  by (auto simp: on_auth_handler_def Let_def split: if_splits sum.splits)

theorem on_auth_failure_500_witness:
  "map_of (req_query \<lparr> req_query = [(''code'', QStr ''abc'')] \<rparr>) ''code'' = Some (QStr ''abc'')
   \<and> (token_request sample_cfg (Some (QStr ''abc'')),
        Inl (Error ''Request failed with status code 400'' (Some ''invalid code'')))
        \<in> set (calls (on_auth_handler failing_env sample_cfg \<lparr> req_query = [(''code'', QStr ''abc'')] \<rparr>))
   \<and> response (on_auth_handler failing_env sample_cfg \<lparr> req_query = [(''code'', QStr ''abc'')] \<rparr>)
       = Send 500 ''Token exchange failed''
   \<and> length (calls (on_auth_handler failing_env sample_cfg \<lparr> req_query = [(''code'', QStr ''abc'')] \<rparr>)) = 1"
proof -
  let ?req = "\<lparr> req_query = [(''code'', QStr ''abc'')] \<rparr>"
  have code: "map_of (req_query ?req) ''code'' = Some (QStr ''abc'')"
    by simp
  have call: "(token_request sample_cfg (Some (QStr ''abc'')),
               Inl (Error ''Request failed with status code 400'' (Some ''invalid code'')))
                \<in> set (calls (on_auth_handler failing_env sample_cfg ?req))"
    by (simp add: on_auth_handler_def failing_env_def sample_env_def)
  from on_auth_failure_500 [OF code call] code call
  show ?thesis by simp
qed

text \<open>
  C2, for a truthy code. For a request to /on_auth whose \<^verbatim>\<open>code\<close> is truthy (present
  and not the empty string), the handler makes exactly one outbound call: a POST to the token
  endpoint with no request body and with the parameters \<^verbatim>\<open>client_key\<close>,
  \<^verbatim>\<open>client_secret\<close>, the incoming \<^verbatim>\<open>code\<close> unchanged, and
  \<^verbatim>\<open>grant_type = authorization_code\<close>.
\<close>

theorem on_auth_one_post:
  assumes "truthy (map_of (req_query req) ''code'')"
  shows "map fst (calls (on_auth_handler env cfg req))
           = [ \<lparr> verb = ''POST'',
                 url = ''https://open-api.tiktok.com/oauth/access_token/'',
                 data = None,
                 params =
                   [ (''client_key'', map_option QStr (CLIENT_KEY cfg)),
                     (''client_secret'', map_option QStr (CLIENT_SECRET cfg)),
                     (''code'', map_of (req_query req) ''code''),
                     (''grant_type'', Some (QStr ''authorization_code'')) ] \<rparr> ]"
  using assms
  by (simp add: on_auth_handler_def token_request_def Let_def split: sum.splits)

theorem on_auth_one_post_witness:
  "truthy (map_of (req_query \<lparr> req_query = [(''code'', QStr ''abc''), (''state'', QStr ''s1'')] \<rparr>) ''code'')
   \<and> map fst (calls (on_auth_handler sample_env sample_cfg
                      \<lparr> req_query = [(''code'', QStr ''abc''), (''state'', QStr ''s1'')] \<rparr>))
       = [ \<lparr> verb = ''POST'',
             url = ''https://open-api.tiktok.com/oauth/access_token/'',
             data = None,
             params =
               [ (''client_key'', Some (QStr ''key1'')),
                 (''client_secret'', Some (QStr ''secret1'')),
                 (''code'', Some (QStr ''abc'')),
                 (''grant_type'', Some (QStr ''authorization_code'')) ] \<rparr> ]"
proof -
  let ?req = "\<lparr> req_query = [(''code'', QStr ''abc''), (''state'', QStr ''s1'')] \<rparr>"
  have code: "truthy (map_of (req_query ?req) ''code'')"
    by simp
  from on_auth_one_post [OF code, where env = sample_env and cfg = sample_cfg] code
  show ?thesis by (simp add: sample_cfg_def)
qed

text \<open>
  C2 does not extend to every \<^verbatim>\<open>code\<close> parameter that is present: for an empty one
  (\<^verbatim>\<open>/on_auth?code=\<close>) the test \<^verbatim>\<open>!code\<close> of line 43 holds, the answer is 400
  and no POST is made.
\<close>

theorem on_auth_empty_code_no_post:
  "map_of (req_query \<lparr> req_query = [(''code'', QStr '''')] \<rparr>) ''code'' = Some (QStr '''')
   \<and> calls (on_auth_handler sample_env sample_cfg \<lparr> req_query = [(''code'', QStr '''')] \<rparr>) = []
   \<and> response (on_auth_handler sample_env sample_cfg \<lparr> req_query = [(''code'', QStr '''')] \<rparr>)
       = Send 400 ''Missing code''"
  by (simp add: on_auth_handler_def)

section \<open>Properties of the upload handler\<close>

text \<open>
  C7. A request to /upload with no file attached is answered with status 400 and the
  JSON body \<^verbatim>\<open>{ok: false, message: "No file uploaded"}\<close>, nothing more in it.
\<close>

theorem upload_no_file_400:
  assumes "req_file req = None"
  shows "response (fst (upload_handler env req disk))
           = Json 400 (JObject [(''ok'', JBool False), (''message'', JString ''No file uploaded'')])
         \<and> status (response (fst (upload_handler env req disk))) = 400"
  using assms by (simp add: upload_handler_def upload_try_def no_file_body_def)

theorem upload_no_file_400_witness:
  "req_file \<lparr> req_file = None, req_body = Some [(''access_token'', QStr ''tok'')] \<rparr> = None
   \<and> response (fst (upload_handler sample_env
                      \<lparr> req_file = None, req_body = Some [(''access_token'', QStr ''tok'')] \<rparr>
                      {''/tmp/uploads/other''}))
       = Json 400 (JObject [(''ok'', JBool False), (''message'', JString ''No file uploaded'')])"
  using upload_no_file_400
          [where req = "\<lparr> req_file = None, req_body = Some [(''access_token'', QStr ''tok'')] \<rparr>"
             and env = sample_env and disk = "{''/tmp/uploads/other''}"]
  by simp

text \<open>
  C10. The file check comes before the token check: a request to /upload with neither a
  file nor an \<^verbatim>\<open>access_token\<close> gets the 400 answer of the missing file, not the 200
  answer of the demo mode, and the handler touches nothing: no path leaves the disk, no
  console line is written, no outbound call is made.
\<close>

theorem upload_file_check_first:
  assumes "req_file req = None" and "access_token req = None"
  shows "upload_handler env req disk
           = (\<lparr> response = Json 400 (JObject [(''ok'', JBool False),
                                              (''message'', JString ''No file uploaded'')]),
                calls = [], logged = [] \<rparr>, disk)
         \<and> status (response (fst (upload_handler env req disk))) \<noteq> 200"
  using assms by (simp add: upload_handler_def upload_try_def no_file_body_def)

theorem upload_file_check_first_witness:
  "req_file \<lparr> req_file = None, req_body = None \<rparr> = None
   \<and> access_token \<lparr> req_file = None, req_body = None \<rparr> = None
   \<and> upload_handler sample_env \<lparr> req_file = None, req_body = None \<rparr> {''/tmp/uploads/other''}
       = (\<lparr> response = Json 400 (JObject [(''ok'', JBool False),
                                          (''message'', JString ''No file uploaded'')]),
            calls = [], logged = [] \<rparr>, {''/tmp/uploads/other''})"
proof -
  let ?req = "\<lparr> req_file = None, req_body = None \<rparr>"
  have nofile: "req_file ?req = None" by simp
  have notoken: "access_token ?req = None" by (simp add: access_token_def)
  from upload_file_check_first [OF nofile notoken, where env = sample_env
                                and disk = "{''/tmp/uploads/other''}"] nofile notoken
  show ?thesis by simp
qed

text \<open>
  C3. A request to /upload with a file and no \<^verbatim>\<open>access_token\<close> field in its body, the
  file being in temporary storage at \<^verbatim>\<open>file.path\<close> and \<^verbatim>\<open>console.log\<close> returning
  normally: the handler removes the file, makes no outbound call and answers 200 with
  \<^verbatim>\<open>{ok: true, demo: true, message: ...}\<close>; afterwards the path is not on disk.
\<close>

theorem upload_demo_mode:
  assumes "req_file req = Some f" and "access_token req = None"
      and "path f \<in> disk" and "console_log env demo_line = None"
  shows "response (fst (upload_handler env req disk))
           = Json 200 (JObject [(''ok'', JBool True), (''demo'', JBool True),
                                (''message'', JString ''Demo upload accepted (no TikTok call)'')])
         \<and> calls (fst (upload_handler env req disk)) = []
         \<and> snd (upload_handler env req disk) = disk - {path f}
         \<and> path f \<notin> snd (upload_handler env req disk)"
  using assms
  by (simp add: upload_handler_def upload_try_def unlinkSync_def demo_body_def)

theorem upload_demo_mode_witness:
  "req_file \<lparr> req_file = Some \<lparr> path = ''/tmp/uploads/abc'' \<rparr>, req_body = Some [] \<rparr>
     = Some \<lparr> path = ''/tmp/uploads/abc'' \<rparr>
   \<and> access_token \<lparr> req_file = Some \<lparr> path = ''/tmp/uploads/abc'' \<rparr>, req_body = Some [] \<rparr> = None
   \<and> path \<lparr> path = ''/tmp/uploads/abc'' \<rparr> \<in> {''/tmp/uploads/abc'', ''/tmp/uploads/other''}
   \<and> console_log sample_env demo_line = None
   \<and> response (fst (upload_handler sample_env
                      \<lparr> req_file = Some \<lparr> path = ''/tmp/uploads/abc'' \<rparr>, req_body = Some [] \<rparr>
                      {''/tmp/uploads/abc'', ''/tmp/uploads/other''}))
       = Json 200 (JObject [(''ok'', JBool True), (''demo'', JBool True),
                            (''message'', JString ''Demo upload accepted (no TikTok call)'')])
   \<and> snd (upload_handler sample_env
             \<lparr> req_file = Some \<lparr> path = ''/tmp/uploads/abc'' \<rparr>, req_body = Some [] \<rparr>
             {''/tmp/uploads/abc'', ''/tmp/uploads/other''})
       = {''/tmp/uploads/other''}"
proof -
  let ?f = "\<lparr> path = ''/tmp/uploads/abc'' \<rparr>"
  let ?req = "\<lparr> req_file = Some ?f, req_body = Some [] \<rparr>"
  let ?disk = "{''/tmp/uploads/abc'', ''/tmp/uploads/other''}"
  have a: "req_file ?req = Some ?f" by simp
  have b: "access_token ?req = None" by (simp add: access_token_def)
  have c: "path ?f \<in> ?disk" by simp
  have d: "console_log sample_env demo_line = None" by (simp add: sample_env_def)
  have e: "?disk - {path ?f} = {''/tmp/uploads/other''}" by auto
  from upload_demo_mode [OF a b c d] a b c d e
  show ?thesis by simp
qed

text \<open>
  C4, for a truthy token. A request to /upload with a file and a truthy
  \<^verbatim>\<open>access_token\<close> (present and not the empty string), the file being in temporary storage at
  \<^verbatim>\<open>file.path\<close>: the handler removes the file, makes no outbound call and answers 200
  with \<^verbatim>\<open>{ok: true, message: ...}\<close>, a body of two fields with no \<^verbatim>\<open>demo\<close> field;
  afterwards the path is not on disk.
\<close>

theorem upload_with_token:
  assumes "req_file req = Some f" and "truthy (access_token req)" and "path f \<in> disk"
  shows "response (fst (upload_handler env req disk))
           = Json 200 (JObject [(''ok'', JBool True),
                                (''message'',
                                 JString ''File received. In production this would be uploaded to TikTok (demo mode).'')])
         \<and> calls (fst (upload_handler env req disk)) = []
         \<and> snd (upload_handler env req disk) = disk - {path f}
         \<and> path f \<notin> snd (upload_handler env req disk)"
  using assms
  by (simp add: upload_handler_def upload_try_def unlinkSync_def received_body_def)

theorem upload_with_token_witness:
  "req_file \<lparr> req_file = Some \<lparr> path = ''/tmp/uploads/abc'' \<rparr>,
              req_body = Some [(''access_token'', QStr ''tok'')] \<rparr>
     = Some \<lparr> path = ''/tmp/uploads/abc'' \<rparr>
   \<and> truthy (access_token \<lparr> req_file = Some \<lparr> path = ''/tmp/uploads/abc'' \<rparr>,
                            req_body = Some [(''access_token'', QStr ''tok'')] \<rparr>)
   \<and> path \<lparr> path = ''/tmp/uploads/abc'' \<rparr> \<in> {''/tmp/uploads/abc''}
   \<and> response (fst (upload_handler sample_env
                      \<lparr> req_file = Some \<lparr> path = ''/tmp/uploads/abc'' \<rparr>,
                        req_body = Some [(''access_token'', QStr ''tok'')] \<rparr>
                      {''/tmp/uploads/abc''}))
       = Json 200 (JObject [(''ok'', JBool True),
                            (''message'',
                             JString ''File received. In production this would be uploaded to TikTok (demo mode).'')])
   \<and> snd (upload_handler sample_env
             \<lparr> req_file = Some \<lparr> path = ''/tmp/uploads/abc'' \<rparr>,
               req_body = Some [(''access_token'', QStr ''tok'')] \<rparr>
             {''/tmp/uploads/abc''})
       = {}"
proof -
  let ?f = "\<lparr> path = ''/tmp/uploads/abc'' \<rparr>"
  let ?req = "\<lparr> req_file = Some ?f, req_body = Some [(''access_token'', QStr ''tok'')] \<rparr>"
  let ?disk = "{''/tmp/uploads/abc''}"
  have a: "req_file ?req = Some ?f" by simp
  have b: "truthy (access_token ?req)" by (simp add: access_token_def)
  have c: "path ?f \<in> ?disk" by simp
  from upload_with_token [OF a b c, where env = sample_env] a b c
  show ?thesis by simp
qed

text \<open>
  C4 does not extend to every \<^verbatim>\<open>access_token\<close> field that is present: for an empty
  one the test \<^verbatim>\<open>!accessToken\<close> of line 85 holds, the demo branch is taken and the
  body has \<^verbatim>\<open>demo: true\<close>.
\<close>

theorem upload_empty_token_is_demo:
  "map_of [(''access_token'', QStr '''')] ''access_token'' = Some (QStr '''')
   \<and> response (fst (upload_handler sample_env
                      \<lparr> req_file = Some \<lparr> path = ''/tmp/uploads/abc'' \<rparr>,
                        req_body = Some [(''access_token'', QStr '''')] \<rparr>
                      {''/tmp/uploads/abc''}))
       = Json 200 (JObject [(''ok'', JBool True), (''demo'', JBool True),
                            (''message'', JString ''Demo upload accepted (no TikTok call)'')])"
  by (simp add: upload_handler_def upload_try_def unlinkSync_def demo_body_def
                access_token_def sample_env_def)

text \<open>
  C8. When an exception \<open>err\<close> leaves the \<^verbatim>\<open>try\<close> block of the /upload handler, the
  handler still answers: status 500 with the JSON body
  \<^verbatim>\<open>{ok: false, error: err.message}\<close>, which hands the exception's message to the
  caller.
\<close>

theorem upload_exception_500:
  assumes "fst (upload_try env req disk) = Inl err"
  shows "response (fst (upload_handler env req disk))
           = Json 500 (JObject [(''ok'', JBool False), (''error'', JString (message err))])
         \<and> status (response (fst (upload_handler env req disk))) = 500"
  using assms
  by (cases "upload_try env req disk") (simp add: upload_handler_def)

theorem upload_exception_500_witness:
  "fst (upload_try sample_env
          \<lparr> req_file = Some \<lparr> path = ''/tmp/uploads/abc'' \<rparr>,
            req_body = Some [(''access_token'', QStr ''tok'')] \<rparr>
          {''/tmp/uploads/other''})
     = Inl (Error (''ENOENT: no such file or directory, unlink ''
                   @ [CHR 0x27] @ ''/tmp/uploads/abc'' @ [CHR 0x27]) None)
   \<and> response (fst (upload_handler sample_env
                      \<lparr> req_file = Some \<lparr> path = ''/tmp/uploads/abc'' \<rparr>,
                        req_body = Some [(''access_token'', QStr ''tok'')] \<rparr>
                      {''/tmp/uploads/other''}))
       = Json 500 (JObject [(''ok'', JBool False),
                            (''error'',
                             JString (''ENOENT: no such file or directory, unlink ''
                                      @ [CHR 0x27] @ ''/tmp/uploads/abc'' @ [CHR 0x27]))])"
proof -
  let ?req = "\<lparr> req_file = Some \<lparr> path = ''/tmp/uploads/abc'' \<rparr>,
                req_body = Some [(''access_token'', QStr ''tok'')] \<rparr>"
  let ?err = "Error (''ENOENT: no such file or directory, unlink ''
                     @ [CHR 0x27] @ ''/tmp/uploads/abc'' @ [CHR 0x27]) None :: string js_error"
  have thrown: "fst (upload_try sample_env ?req {''/tmp/uploads/other''}) = Inl ?err"
    by (simp add: upload_try_def unlinkSync_def access_token_def)
  from upload_exception_500 [OF thrown] thrown
  show ?thesis by simp
qed

text \<open>
  C9. A request to /upload whose file is in temporary storage at \<^verbatim>\<open>file.path\<close>, and an
  exception leaves the \<^verbatim>\<open>try\<close> block. With the file on disk \<^verbatim>\<open>unlinkSync\<close> does
  not throw, so the exception was raised before the deletion call was reached. The
  \<^verbatim>\<open>catch\<close> block answers 500 and removes nothing: the disk is as it was, and the
  temporary file is still there.
\<close>

theorem upload_exception_keeps_file:
  assumes "req_file req = Some f" and "path f \<in> disk"
      and "fst (upload_try env req disk) = Inl err"
  shows "status (response (fst (upload_handler env req disk))) = 500
         \<and> snd (upload_handler env req disk) = disk
         \<and> path f \<in> snd (upload_handler env req disk)"
  using assms
  by (auto simp: upload_handler_def upload_try_def unlinkSync_def
           split: if_splits option.splits)

theorem upload_exception_keeps_file_witness:
  "req_file \<lparr> req_file = Some \<lparr> path = ''/tmp/uploads/abc'' \<rparr>, req_body = None \<rparr>
     = Some \<lparr> path = ''/tmp/uploads/abc'' \<rparr>
   \<and> path \<lparr> path = ''/tmp/uploads/abc'' \<rparr> \<in> {''/tmp/uploads/abc''}
   \<and> fst (upload_try broken_console_env
            \<lparr> req_file = Some \<lparr> path = ''/tmp/uploads/abc'' \<rparr>, req_body = None \<rparr>
            {''/tmp/uploads/abc''})
       = Inl (Error ''write EPIPE'' None)
   \<and> status (response (fst (upload_handler broken_console_env
                      \<lparr> req_file = Some \<lparr> path = ''/tmp/uploads/abc'' \<rparr>, req_body = None \<rparr>
                      {''/tmp/uploads/abc''}))) = 500
   \<and> ''/tmp/uploads/abc''
       \<in> snd (upload_handler broken_console_env
                \<lparr> req_file = Some \<lparr> path = ''/tmp/uploads/abc'' \<rparr>, req_body = None \<rparr>
                {''/tmp/uploads/abc''})"
proof -
  let ?f = "\<lparr> path = ''/tmp/uploads/abc'' \<rparr>"
  let ?req = "\<lparr> req_file = Some ?f, req_body = None \<rparr>"
  have a: "req_file ?req = Some ?f" by simp
  have b: "path ?f \<in> {''/tmp/uploads/abc''}" by simp
  have c: "fst (upload_try broken_console_env ?req {''/tmp/uploads/abc''})
             = Inl (Error ''write EPIPE'' None)"
    by (simp add: upload_try_def access_token_def broken_console_env_def sample_env_def)
  from upload_exception_keeps_file [OF a b c] a b c
  show ?thesis by simp
qed

end
